theory Spec2Isabelle
  imports Complex_Main "HOL-Library.Log_Nat"
begin

section \<open>Python primitives used by the calculator\<close>

text \<open>
  The program is one Python script (\<^verbatim>\<open>streamlit_app.py\<close>). Its integers are
  Python's unbounded integers (\<^typ>\<open>int\<close>). Everything that can raise is a value of
  \<open>error + 'a\<close>.

  A float is a real number that stands for the binary64 value nearest to it: the
  literal \<^verbatim>\<open>1.2\<close> is the real \<open>6/5\<close> and stands for the double that Python reads
  from it. Where a float stays a float (a bolt length, a coordinate, a density) the
  arithmetic is taken at its exact value, so its last-place rounding is not modelled.
  Where Python turns a quotient into an integer (\<^verbatim>\<open>round\<close>, \<^verbatim>\<open>int\<close>) a
  rounding error can change the integer, and there the quotient is the one binary64
  division returns: both operands rounded to binary64, divided exactly, the result
  rounded to binary64, to the nearest value with a tie to the even significand. The
  exponent range is not modelled: no overflow, no subnormal numbers, no infinity.
\<close>

datatype error = ValueError | IndexError | ZeroDivisionError

text \<open>\<^verbatim>\<open>xs.index(x)\<close>: the first position of \<open>x\<close>, or \<^verbatim>\<open>ValueError\<close>.\<close>

fun index_of :: "'a list \<Rightarrow> 'a \<Rightarrow> error + nat" where
  "index_of [] x = Inl ValueError"
| "index_of (y # ys) x =
     (if y = x then Inr 0
      else (case index_of ys x of Inl e \<Rightarrow> Inl e | Inr i \<Rightarrow> Inr (Suc i)))"

text \<open>\<^verbatim>\<open>xs[i]\<close> for a non-negative index: \<^verbatim>\<open>IndexError\<close> out of range.\<close>

definition getitem :: "'a list \<Rightarrow> nat \<Rightarrow> error + 'a" where
  "getitem xs i = (if i < length xs then Inr (xs ! i) else Inl IndexError)"

text \<open>
  \<^verbatim>\<open>a / b\<close> where the quotient stays a float: \<^verbatim>\<open>ZeroDivisionError\<close> when the
  divisor is zero, the exact quotient otherwise.
\<close>

definition fdiv :: "real \<Rightarrow> real \<Rightarrow> error + real" where
  "fdiv a b = (if b = 0 then Inl ZeroDivisionError else Inr (a / b))"

text \<open>\<^verbatim>\<open>int(x)\<close> on a float truncates towards zero.\<close>

definition py_int :: "real \<Rightarrow> int" where
  "py_int x = (if 0 \<le> x then \<lfloor>x\<rfloor> else \<lceil>x\<rceil>)"

text \<open>
  \<^verbatim>\<open>round(x)\<close> on a float, with no second argument, returns the nearest integer
  and resolves a tie towards the even neighbour.
\<close>

definition py_round :: "real \<Rightarrow> int" where
  "py_round x =
     (let f = \<lfloor>x\<rfloor>; d = x - of_int f
      in if d < 1 / 2 then f
         else if 1 / 2 < d then f + 1
         else if even f then f else f + 1)"

text \<open>
  The binary exponent of a non-zero real: \<open>\<lfloor>log\<^sub>2 \<bar>x\<bar>\<rfloor>\<close>, computed from the bit
  length of an integer next to \<open>\<bar>x\<bar>\<close> or to its reciprocal.
\<close>

definition float_exponent :: "real \<Rightarrow> int" where
  "float_exponent x =
     (if 1 \<le> \<bar>x\<bar> then bitlen \<lfloor>\<bar>x\<bar>\<rfloor> - 1 else - bitlen (\<lceil>1 / \<bar>x\<bar>\<rceil> - 1))"

text \<open>
  The binary64 value nearest to a real: a significand of 53 bits, so the unit in the
  last place is \<open>2\<close> to the exponent minus 52, and the real is rounded to a multiple
  of it with a tie to the even multiple.
\<close>

definition to_double :: "real \<Rightarrow> real" where
  "to_double x =
     (if x = 0 then 0
      else (let ulp = 2 powi (float_exponent x - 52)
            in of_int (py_round (x / ulp)) * ulp))"

text \<open>The value of \<^verbatim>\<open>a / b\<close> as binary64 division computes it.\<close>

definition float_quotient :: "real \<Rightarrow> real \<Rightarrow> real" where
  "float_quotient a b = to_double (to_double a / to_double b)"

text \<open>
  \<^verbatim>\<open>a / b\<close> where the quotient goes on to \<^verbatim>\<open>round\<close> or \<^verbatim>\<open>int\<close>:
  \<^verbatim>\<open>ZeroDivisionError\<close> when the divisor is zero, the binary64 quotient otherwise.
\<close>

definition float_div :: "real \<Rightarrow> real \<Rightarrow> error + real" where
  "float_div a b =
     (if to_double b = 0 then Inl ZeroDivisionError else Inr (float_quotient a b))"

text \<open>\<^verbatim>\<open>range(n)\<close>: the integers \<open>0, \<dots>, n - 1\<close>, none when \<open>n \<le> 0\<close>.\<close>

definition py_range :: "int \<Rightarrow> int list" where
  "py_range n = [0..n - 1]"

section \<open>RMR scorer (lines 31--148)\<close>

definition ucs_options :: "string list" where
  "ucs_options =
     [''> 250 MPa (15 points)'',
      ''100-250 MPa (12 points)'',
      ''50-100 MPa (7 points)'',
      ''25-50 MPa (4 points)'',
      ''5-25 MPa (2 points)'',
      ''1-5 MPa (1 point)'',
      ''< 1 MPa (0 points)'']"

definition ucs_ratings :: "int list" where
  "ucs_ratings = [15, 12, 7, 4, 2, 1, 0]"

definition rqd_options :: "string list" where
  "rqd_options =
     [''90-100% (20 points)'',
      ''75-90% (17 points)'',
      ''50-75% (13 points)'',
      ''25-50% (8 points)'',
      ''< 25% (3 points)'']"

definition rqd_ratings :: "int list" where
  "rqd_ratings = [20, 17, 13, 8, 3]"

definition spacing_options :: "string list" where
  "spacing_options =
     [''> 2 m (20 points)'',
      ''0.6-2 m (15 points)'',
      ''200-600 mm (10 points)'',
      ''60-200 mm (8 points)'',
      ''< 60 mm (5 points)'']"

definition spacing_ratings :: "int list" where
  "spacing_ratings = [20, 15, 10, 8, 5]"

definition condition_options :: "string list" where
  "condition_options =
     [''Very rough, not continuous, no separation, unweathered (30 points)'',
      ''Slightly rough, separation < 1 mm, slightly weathered (25 points)'',
      ''Slightly rough, separation < 1 mm, highly weathered (20 points)'',
      ''Slickensided/gouge < 5 mm, or separation 1-5 mm (10 points)'',
      ''Soft gouge > 5 mm, or separation > 5 mm (0 points)'']"

definition condition_ratings :: "int list" where
  "condition_ratings = [30, 25, 20, 10, 0]"

definition water_options :: "string list" where
  "water_options =
     [''Completely dry (15 points)'',
      ''Damp (10 points)'',
      ''Wet (7 points)'',
      ''Dripping (4 points)'',
      ''Flowing (0 points)'']"

definition water_ratings :: "int list" where
  "water_ratings = [15, 10, 7, 4, 0]"

text \<open>
  The pattern repeated for each of the five parameters:
  \<^verbatim>\<open>index = options.index(option); rating = ratings[index]\<close>.
\<close>

definition rating :: "string list \<Rightarrow> int list \<Rightarrow> string \<Rightarrow> error + int" where
  "rating options ratings option =
     (case index_of options option of
        Inl e \<Rightarrow> Inl e
      | Inr i \<Rightarrow> getitem ratings i)"

text \<open>
  The rock class is one of the five strings \<^verbatim>\<open>"I"\<close>, \<^verbatim>\<open>"II"\<close>, \<^verbatim>\<open>"III"\<close>,
  \<^verbatim>\<open>"IV"\<close>, \<^verbatim>\<open>"V"\<close>: the classifier assigns no other value, so it is an
  enumeration.
\<close>

datatype rock_class = I | II | III | IV | V

text \<open>Lines 129--148: class, description and colour of a score.\<close>

definition classify :: "int \<Rightarrow> rock_class \<times> string \<times> string" where
  "classify rmr_value =
     (if rmr_value \<ge> 81 \<and> rmr_value \<le> 100 then (I, ''Very good rock'', ''green'')
      else if rmr_value \<ge> 61 \<and> rmr_value \<le> 80 then (II, ''Good rock'', ''lightgreen'')
      else if rmr_value \<ge> 41 \<and> rmr_value \<le> 60 then (III, ''Fair rock'', ''yellow'')
      else if rmr_value \<ge> 21 \<and> rmr_value \<le> 40 then (IV, ''Poor rock'', ''orange'')
      else (V, ''Very poor rock'', ''red''))"

record rmr_result =
  a1_rating :: int
  a2_rating :: int
  a3_rating :: int
  a4_rating :: int
  a5_rating :: int
  rmr_value :: int
  rock_class :: rock_class
  description :: string
  class_color :: string

text \<open>
  The scorer: the five selected options come from the select boxes, the ratings are
  looked up by position and added (line 126), and the sum is classified.
\<close>

definition score :: "string \<Rightarrow> string \<Rightarrow> string \<Rightarrow> string \<Rightarrow> string \<Rightarrow> error + rmr_result" where
  "score ucs_option rqd_option spacing_option condition_option water_option =
     (case rating ucs_options ucs_ratings ucs_option of Inl e \<Rightarrow> Inl e | Inr a1 \<Rightarrow>
      case rating rqd_options rqd_ratings rqd_option of Inl e \<Rightarrow> Inl e | Inr a2 \<Rightarrow>
      case rating spacing_options spacing_ratings spacing_option of Inl e \<Rightarrow> Inl e | Inr a3 \<Rightarrow>
      case rating condition_options condition_ratings condition_option of Inl e \<Rightarrow> Inl e | Inr a4 \<Rightarrow>
      case rating water_options water_ratings water_option of Inl e \<Rightarrow> Inl e | Inr a5 \<Rightarrow>
        (let total = a1 + a2 + a3 + a4 + a5;
             (cls, descr, colour) = classify total
         in Inr \<lparr>a1_rating = a1, a2_rating = a2, a3_rating = a3, a4_rating = a4,
                 a5_rating = a5, rmr_value = total, rock_class = cls,
                 description = descr, class_color = colour\<rparr>))"

section \<open>Support planner (lines 210--261)\<close>

record support_plan =
  bolt_length :: real
  bolt_spacing :: real
  bolt_pattern :: string
  bolt_type :: string
  bolt_capacity :: string
  additional_support :: string
  bolts_per_row :: int
  rows_per_meter :: real
  bolt_density :: real
  total_bolts :: real
  total_bolt_length :: real

text \<open>
  Lines 211--249: bolt length, bolt spacing and the four labels of a class. The
  divisors are non-zero literals.
\<close>

fun support_recommendation ::
  "rock_class \<Rightarrow> real \<Rightarrow> real \<times> real \<times> string \<times> string \<times> string \<times> string" where
  "support_recommendation I excavation_width =
     (max 2.0 (excavation_width / 5), 2.0,
      ''Spot bolting only where necessary'',
      ''Friction or Fully Grouted Bolts'',
      ''Low capacity (10-15 tons)'',
      ''Generally no additional support required'')"
| "support_recommendation II excavation_width =
     (max 2.5 (excavation_width / 4), 1.5,
      ''Systematic bolting at 1.5-2.0m spacing'',
      ''Fully Grouted Rebar or Friction Bolts'',
      ''Medium capacity (15-20 tons)'',
      ''Spot mesh in crown where needed'')"
| "support_recommendation III excavation_width =
     (max 3.0 (excavation_width / 3), 1.2,
      ''Systematic bolting at 1.0-1.5m spacing in crown and walls'',
      ''Fully Grouted Rebar'',
      ''Medium-high capacity (20-25 tons)'',
      ''Wire mesh in crown; spot fiber-reinforced shotcrete (50mm)'')"
| "support_recommendation IV excavation_width =
     (max 4.0 (excavation_width / 2.5), 1.0,
      ''Systematic bolting at 1.0m spacing with wire mesh in crown and walls'',
      ''Fully Grouted Rebar or Cable Bolts'',
      ''High capacity (25-30 tons)'',
      ''Wire mesh in crown and walls; fiber-reinforced shotcrete (100-150mm)'')"
| "support_recommendation V excavation_width =
     (max 4.5 (excavation_width / 2), 0.6,
      ''Systematic bolting at 0.5-0.8m spacing with wire mesh and straps'',
      ''Fully Grouted Cable Bolts and Rebar'',
      ''Very high capacity (>30 tons)'',
      ''Wire mesh with straps in crown and walls; fiber-reinforced shotcrete (150-200mm); light steel sets'')"

text \<open>
  Lines 252--257: bolts per row and rows per metre. Both divide by the bolt spacing,
  so both can raise. The quotient that is rounded is the binary64 quotient.
\<close>

definition bolt_rows :: "rock_class \<Rightarrow> real \<Rightarrow> real \<Rightarrow> error + int \<times> real" where
  "bolt_rows rc excavation_width spacing =
     (if rc = I then
        (case float_div excavation_width spacing of
           Inl e \<Rightarrow> Inl e
         | Inr q \<Rightarrow> Inr (max 2 (py_round q), 0.5))
      else
        (case float_div excavation_width spacing of
           Inl e \<Rightarrow> Inl e
         | Inr q \<Rightarrow>
             (case fdiv 1 spacing of
                Inl e \<Rightarrow> Inl e
              | Inr rpm \<Rightarrow> Inr (max 3 (py_round q), rpm))))"

text \<open>The whole planner, with lines 259--261 for the three derived totals.\<close>

definition plan :: "rock_class \<Rightarrow> real \<Rightarrow> real \<Rightarrow> error + support_plan" where
  "plan rc excavation_width tunnel_length =
     (case support_recommendation rc excavation_width of
        (len, spacing, pattern, type, capacity, additional) \<Rightarrow>
          (case bolt_rows rc excavation_width spacing of
             Inl e \<Rightarrow> Inl e
           | Inr (per_row, rpm) \<Rightarrow>
               (let density = of_int per_row * rpm;
                    total = density * tunnel_length;
                    total_length = total * len
                in Inr \<lparr>bolt_length = len, bolt_spacing = spacing, bolt_pattern = pattern,
                        bolt_type = type, bolt_capacity = capacity,
                        additional_support = additional, bolts_per_row = per_row,
                        rows_per_meter = rpm, bolt_density = density,
                        total_bolts = total, total_bolt_length = total_length\<rparr>)))"

section \<open>Bolt layout generator (lines 308--334)\<close>

text \<open>
  The part of \<^verbatim>\<open>generate_bolt_pattern_image(width, height, spacing, length, rock_class)\<close>
  that fills the list \<^verbatim>\<open>bolt_positions\<close>; the drawing around it, and with it the
  parameter \<^verbatim>\<open>length\<close>, is not modelled. The inner loop over
  the columns of one row: \<open>x\<close> is computed first, then classes II and III skip every
  row after the second, then \<open>y\<close> is computed and the position appended.
\<close>

fun cols_loop ::
  "rock_class \<Rightarrow> real \<Rightarrow> real \<Rightarrow> int \<Rightarrow> int \<Rightarrow> int \<Rightarrow> int list \<Rightarrow>
   (real \<times> real) list \<Rightarrow> error + (real \<times> real) list" where
  "cols_loop rc width height rows cols row [] positions = Inr positions"
| "cols_loop rc width height rows cols row (col # rest) positions =
     (case fdiv width (of_int cols) of
        Inl e \<Rightarrow> Inl e
      | Inr wc \<Rightarrow>
          (let x = (of_int col + 0.5) * wc
           in if (rc = II \<or> rc = III) \<and> row > 1
              then cols_loop rc width height rows cols row rest positions
              else
                (case fdiv height (of_int rows) of
                   Inl e \<Rightarrow> Inl e
                 | Inr hr \<Rightarrow>
                     (let y = (of_int row + 0.5) * hr
                      in cols_loop rc width height rows cols row rest (positions @ [(x, y)])))))"

text \<open>
  The position that one pass of the loop body appends for the cell \<open>(row, col)\<close>:
  \<open>x\<close> of line 325 and \<open>y\<close> of line 332.
\<close>

definition cell_position :: "real \<Rightarrow> real \<Rightarrow> int \<Rightarrow> int \<Rightarrow> int \<Rightarrow> int \<Rightarrow> real \<times> real" where
  "cell_position width height rows cols row col =
     ((of_int col + 0.5) * (width / of_int cols), (of_int row + 0.5) * (height / of_int rows))"

text \<open>The outer loop over the rows.\<close>

fun rows_loop ::
  "rock_class \<Rightarrow> real \<Rightarrow> real \<Rightarrow> int \<Rightarrow> int \<Rightarrow> int list \<Rightarrow>
   (real \<times> real) list \<Rightarrow> error + (real \<times> real) list" where
  "rows_loop rc width height rows cols [] positions = Inr positions"
| "rows_loop rc width height rows cols (row # rest) positions =
     (case cols_loop rc width height rows cols row (py_range cols) positions of
        Inl e \<Rightarrow> Inl e
      | Inr positions' \<Rightarrow> rows_loop rc width height rows cols rest positions')"

text \<open>
  Line 318: the number of rows; line 319: the number of columns. The quotient that is
  truncated is the binary64 quotient.
\<close>

definition grid_rows :: "rock_class \<Rightarrow> real \<Rightarrow> real \<Rightarrow> error + int" where
  "grid_rows rc height spacing =
     (if rc = IV \<or> rc = V then
        (case float_div height spacing of Inl e \<Rightarrow> Inl e | Inr q \<Rightarrow> Inr (py_int q))
      else
        (case float_div height spacing of Inl e \<Rightarrow> Inl e | Inr q \<Rightarrow> Inr (max 2 (py_int q))))"

definition grid_cols :: "real \<Rightarrow> real \<Rightarrow> error + int" where
  "grid_cols width spacing =
     (case float_div width spacing of Inl e \<Rightarrow> Inl e | Inr q \<Rightarrow> Inr (max 3 (py_int q)))"

definition bolt_positions ::
  "rock_class \<Rightarrow> real \<Rightarrow> real \<Rightarrow> real \<Rightarrow> error + (real \<times> real) list" where
  "bolt_positions rc width height spacing =
     (if rc = I then
        (let x_positions = [width / 4, width / 2, 3 * width / 4]
         in Inr (foldl (\<lambda>positions x. positions @ [(x, 0.5)]) [] x_positions))
      else
        (case grid_rows rc height spacing of
           Inl e \<Rightarrow> Inl e
         | Inr rows \<Rightarrow>
             (case grid_cols width spacing of
                Inl e \<Rightarrow> Inl e
              | Inr cols \<Rightarrow> rows_loop rc width height rows cols (py_range rows) [])))"

text \<open>
  The application's call (lines 360--362): the layout of the planned spacing.
\<close>

definition bolt_pattern_positions ::
  "rock_class \<Rightarrow> real \<Rightarrow> real \<Rightarrow> real \<Rightarrow> error + (real \<times> real) list" where
  "bolt_pattern_positions rc excavation_width excavation_height tunnel_length =
     (case plan rc excavation_width tunnel_length of
        Inl e \<Rightarrow> Inl e
      | Inr p \<Rightarrow> bolt_positions rc excavation_width excavation_height (bolt_spacing p))"

section \<open>The layout as the specification words it\<close>

text \<open>
  Written from section 4.3 of the specification, for comparison with
  \<open>bolt_positions\<close>: the number of rows and columns by \<open>floor\<close>, the position of a
  grid cell, and the cells in row-major order with the suppression of classes II and III.
  The quotients \<open>height/spacing\<close> and \<open>width/spacing\<close> of its formulas are quotients
  of two floats, so they are the binary64 quotients; the specification differs from the
  code in taking their floor where the code truncates them towards zero.
\<close>

definition spec_rows :: "rock_class \<Rightarrow> real \<Rightarrow> real \<Rightarrow> int" where
  "spec_rows rc height spacing =
     (if rc = IV \<or> rc = V then \<lfloor>float_quotient height spacing\<rfloor>
      else max 2 \<lfloor>float_quotient height spacing\<rfloor>)"

definition spec_cols :: "real \<Rightarrow> real \<Rightarrow> int" where
  "spec_cols width spacing = max 3 \<lfloor>float_quotient width spacing\<rfloor>"

definition spec_position :: "real \<Rightarrow> real \<Rightarrow> int \<Rightarrow> int \<Rightarrow> int \<Rightarrow> int \<Rightarrow> real \<times> real" where
  "spec_position width height rows cols row col =
     ((of_int col + 0.5) * width / of_int cols, (of_int row + 0.5) * height / of_int rows)"

definition spec_grid_layout :: "rock_class \<Rightarrow> real \<Rightarrow> real \<Rightarrow> real \<Rightarrow> (real \<times> real) list" where
  "spec_grid_layout rc width height spacing =
     (let rows = spec_rows rc height spacing; cols = spec_cols width spacing
      in concat (map (\<lambda>row. concat (map (\<lambda>col.
           if (rc = II \<or> rc = III) \<and> row > 1 then []
           else [spec_position width height rows cols row col]) [0..cols - 1])) [0..rows - 1]))"

section \<open>Properties of the primitives\<close>

lemma float_exponent_le:
  assumes "x \<noteq> 0"
  shows "2 powi (float_exponent x) \<le> \<bar>x\<bar>"
proof (cases "1 \<le> \<bar>x\<bar>")
  case True
  then have n: "0 < \<lfloor>\<bar>x\<bar>\<rfloor>"
    by simp
  from bitlen_bounds [OF n] have "2 ^ nat (bitlen \<lfloor>\<bar>x\<bar>\<rfloor> - 1) \<le> \<lfloor>\<bar>x\<bar>\<rfloor>"
    by simp
  then have "(2::real) ^ nat (bitlen \<lfloor>\<bar>x\<bar>\<rfloor> - 1) \<le> of_int \<lfloor>\<bar>x\<bar>\<rfloor>"
    by (metis of_int_le_iff of_int_numeral of_int_power)
  also have "\<dots> \<le> \<bar>x\<bar>"
    by simp
  finally have le: "(2::real) ^ nat (bitlen \<lfloor>\<bar>x\<bar>\<rfloor> - 1) \<le> \<bar>x\<bar>" .
  have "1 \<le> bitlen \<lfloor>\<bar>x\<bar>\<rfloor>"
    using n by (auto simp: bitlen_alt_def)
  then have "(2::real) powi (bitlen \<lfloor>\<bar>x\<bar>\<rfloor> - 1) = 2 ^ nat (bitlen \<lfloor>\<bar>x\<bar>\<rfloor> - 1)"
    by (simp add: power_int_nonneg_exp)
  with le True show ?thesis
    by (simp add: float_exponent_def)
next
  case False
  define m where "m = \<lceil>1 / \<bar>x\<bar>\<rceil>"
  have a: "0 < \<bar>x\<bar>" "\<bar>x\<bar> < 1"
    using assms False by simp_all
  then have "1 < 1 / \<bar>x\<bar>"
    by simp
  then have "1 < m"
    unfolding m_def by (simp add: less_ceiling_iff)
  then have pos: "0 < m - 1"
    by simp
  from bitlen_bounds [OF pos] have "m - 1 < 2 ^ nat (bitlen (m - 1))"
    by simp
  then have "m \<le> 2 ^ nat (bitlen (m - 1))"
    by simp
  then have m: "(of_int m :: real) \<le> 2 ^ nat (bitlen (m - 1))"
    by (metis of_int_le_iff of_int_numeral of_int_power)
  have "1 / \<bar>x\<bar> \<le> of_int m"
    unfolding m_def by simp
  also note m
  finally have "1 / \<bar>x\<bar> \<le> 2 ^ nat (bitlen (m - 1))" .
  then have "1 / 2 ^ nat (bitlen (m - 1)) \<le> \<bar>x\<bar>"
    using a(1) by (simp add: field_simps)
  moreover have "(2::real) powi (- bitlen (m - 1)) = 1 / 2 ^ nat (bitlen (m - 1))"
    using bitlen_nonneg [of "m - 1"] by (simp add: power_int_minus_divide power_int_nonneg_exp)
  ultimately show ?thesis
    using False by (simp add: float_exponent_def m_def)
qed

lemma py_round_cases: "py_round q = \<lfloor>q\<rfloor> \<or> py_round q = \<lfloor>q\<rfloor> + 1"
  by (simp add: py_round_def Let_def)

lemma py_round_of_int: "py_round (of_int n) = n"
  by (simp add: py_round_def Let_def)

lemma py_round_nonzero:
  assumes "1 \<le> \<bar>q\<bar>"
  shows "py_round q \<noteq> 0"
proof (cases "0 \<le> q")
  case True
  with assms have "1 \<le> \<lfloor>q\<rfloor>"
    by simp
  with py_round_cases [of q] show ?thesis
    by arith
next
  case False
  with assms have le: "q \<le> - 1"
    by simp
  show ?thesis
  proof (cases "q = - 1")
    case True
    then have "q = of_int (- 1)"
      by simp
    then have "py_round q = - 1"
      by (simp only: py_round_of_int)
    then show ?thesis
      by simp
  next
    case False
    with le have "q < of_int (- 1)"
      by simp
    then have "\<lfloor>q\<rfloor> < - 1"
      by (simp only: floor_less_iff)
    with py_round_cases [of q] show ?thesis
      by arith
  qed
qed

lemma to_double_eq_0_iff: "to_double x = 0 \<longleftrightarrow> x = 0"
proof
  assume z: "to_double x = 0"
  show "x = 0"
  proof (rule ccontr)
    assume nz: "x \<noteq> 0"
    define ulp :: real where "ulp = 2 powi (float_exponent x - 52)"
    have pos: "0 < ulp"
      by (simp add: ulp_def)
    have "ulp \<le> 2 powi (float_exponent x)"
      unfolding ulp_def by (rule power_int_increasing) simp_all
    also have "\<dots> \<le> \<bar>x\<bar>"
      using nz by (rule float_exponent_le)
    finally have "1 \<le> \<bar>x / ulp\<bar>"
      using pos by (simp add: field_simps)
    then have "py_round (x / ulp) \<noteq> 0"
      by (rule py_round_nonzero)
    with pos have "of_int (py_round (x / ulp)) * ulp \<noteq> 0"
      by simp
    with nz z show False
      by (simp add: to_double_def Let_def ulp_def)
  qed
next
  assume "x = 0"
  then show "to_double x = 0"
    by (simp add: to_double_def)
qed

lemma py_round_nearest:
  "\<bar>of_int (py_round q) - q\<bar> \<le> 1 / 2
   \<and> (\<bar>of_int (py_round q) - q\<bar> = 1 / 2 \<longrightarrow> even (py_round q))"
proof -
  define f where "f = \<lfloor>q\<rfloor>"
  define d where "d = q - of_int f"
  have d: "0 \<le> d" "d < 1"
    unfolding d_def f_def by linarith+
  have q: "q = of_int f + d"
    by (simp add: d_def)
  have r: "py_round q =
      (if d < 1 / 2 then f else if 1 / 2 < d then f + 1 else if even f then f else f + 1)"
    by (simp add: py_round_def Let_def f_def d_def)
  show ?thesis
    unfolding r using d by (auto simp: q abs_if)
qed

lemma float_div_Inr: "b \<noteq> 0 \<Longrightarrow> float_div a b = Inr (float_quotient a b)"
  by (simp add: float_div_def to_double_eq_0_iff)

lemma float_div_zero: "float_div a 0 = Inl ZeroDivisionError"
  by (simp add: float_div_def to_double_eq_0_iff)

section \<open>Properties of the scorer\<close>

lemma rating_selected:
  "option \<in> set options \<Longrightarrow> length ratings = length options \<Longrightarrow>
   \<exists>i < length options. options ! i = option \<and> rating options ratings option = Inr (ratings ! i)"
proof (induction options arbitrary: ratings)
  case Nil
  then show ?case by simp
next
  case (Cons y ys)
  then obtain r rs where ratings: "ratings = r # rs"
    by (cases ratings) auto
  show ?case
  proof (cases "y = option")
    case True
    then have "rating (y # ys) ratings option = Inr (ratings ! 0)"
      by (simp add: rating_def getitem_def ratings)
    with True show ?thesis by auto
  next
    case False
    with Cons.prems ratings have "option \<in> set ys" "length rs = length ys"
      by auto
    from Cons.IH [OF this] obtain i where i: "i < length ys" "ys ! i = option"
      "rating ys rs option = Inr (rs ! i)"
      by blast
    obtain j where j: "index_of ys option = Inr j" "getitem rs j = Inr (rs ! i)"
      using i(3) by (auto simp: rating_def split: sum.splits)
    then have "j < length rs"
      by (auto simp: getitem_def split: if_splits)
    with j False have "rating (y # ys) ratings option = Inr (rs ! i)"
      by (simp add: rating_def getitem_def ratings)
    with i show ?thesis
      by (intro exI [of _ "Suc i"]) (simp add: ratings)
  qed
qed

lemma ucs_ratings_bounds: "v \<in> set ucs_ratings \<Longrightarrow> 0 \<le> v \<and> v \<le> 15"
  by (auto simp: ucs_ratings_def)

lemma rqd_ratings_bounds: "v \<in> set rqd_ratings \<Longrightarrow> 3 \<le> v \<and> v \<le> 20"
  by (auto simp: rqd_ratings_def)

lemma spacing_ratings_bounds: "v \<in> set spacing_ratings \<Longrightarrow> 5 \<le> v \<and> v \<le> 20"
  by (auto simp: spacing_ratings_def)

lemma condition_ratings_bounds: "v \<in> set condition_ratings \<Longrightarrow> 0 \<le> v \<and> v \<le> 30"
  by (auto simp: condition_ratings_def)

lemma water_ratings_bounds: "v \<in> set water_ratings \<Longrightarrow> 0 \<le> v \<and> v \<le> 15"
  by (auto simp: water_ratings_def)

lemma table_lengths:
  "length ucs_ratings = length ucs_options"
  "length rqd_ratings = length rqd_options"
  "length spacing_ratings = length spacing_options"
  "length condition_ratings = length condition_options"
  "length water_ratings = length water_options"
  by (simp_all add: ucs_ratings_def ucs_options_def rqd_ratings_def rqd_options_def
      spacing_ratings_def spacing_options_def condition_ratings_def condition_options_def
      water_ratings_def water_options_def)

lemma score_minimum:
  "score ''< 1 MPa (0 points)'' ''< 25% (3 points)'' ''< 60 mm (5 points)''
     ''Soft gouge > 5 mm, or separation > 5 mm (0 points)'' ''Flowing (0 points)''
   = Inr \<lparr>a1_rating = 0, a2_rating = 3, a3_rating = 5, a4_rating = 0, a5_rating = 0,
           rmr_value = 8, rock_class = V, description = ''Very poor rock'',
           class_color = ''red''\<rparr>"
  by (simp add: score_def rating_def getitem_def classify_def
      ucs_ratings_def ucs_options_def rqd_ratings_def rqd_options_def
      spacing_ratings_def spacing_options_def condition_ratings_def condition_options_def
      water_ratings_def water_options_def)

text \<open>
  Claim C1. For every five valid choices (one option of each select box) the scorer
  returns a result whose score is the exact integer sum of the five point values
  selected from the five rating tables; the score lies between 0 and 100, it is never
  below 8, and 8 is reached by the five lowest-rated options.
\<close>

theorem rmr_value_sum_in_range:
  assumes "ucs_option \<in> set ucs_options"
    and "rqd_option \<in> set rqd_options"
    and "spacing_option \<in> set spacing_options"
    and "condition_option \<in> set condition_options"
    and "water_option \<in> set water_options"
  shows "(\<exists>r i1 i2 i3 i4 i5.
            score ucs_option rqd_option spacing_option condition_option water_option = Inr r
          \<and> i1 < length ucs_options \<and> ucs_options ! i1 = ucs_option
          \<and> i2 < length rqd_options \<and> rqd_options ! i2 = rqd_option
          \<and> i3 < length spacing_options \<and> spacing_options ! i3 = spacing_option
          \<and> i4 < length condition_options \<and> condition_options ! i4 = condition_option
          \<and> i5 < length water_options \<and> water_options ! i5 = water_option
          \<and> rmr_value r = ucs_ratings ! i1 + rqd_ratings ! i2 + spacing_ratings ! i3
                + condition_ratings ! i4 + water_ratings ! i5
          \<and> rmr_value r = a1_rating r + a2_rating r + a3_rating r + a4_rating r + a5_rating r
          \<and> 0 \<le> rmr_value r \<and> rmr_value r \<le> 100 \<and> 8 \<le> rmr_value r)
       \<and> (\<exists>u \<in> set ucs_options. \<exists>q \<in> set rqd_options. \<exists>s \<in> set spacing_options.
            \<exists>c \<in> set condition_options. \<exists>w \<in> set water_options.
            \<exists>r. score u q s c w = Inr r \<and> rmr_value r = 8)"
proof
  from rating_selected [OF assms(1) table_lengths(1)] obtain i1 where
    i1: "i1 < length ucs_options" "ucs_options ! i1 = ucs_option"
      "rating ucs_options ucs_ratings ucs_option = Inr (ucs_ratings ! i1)"
    by blast
  from rating_selected [OF assms(2) table_lengths(2)] obtain i2 where
    i2: "i2 < length rqd_options" "rqd_options ! i2 = rqd_option"
      "rating rqd_options rqd_ratings rqd_option = Inr (rqd_ratings ! i2)"
    by blast
  from rating_selected [OF assms(3) table_lengths(3)] obtain i3 where
    i3: "i3 < length spacing_options" "spacing_options ! i3 = spacing_option"
      "rating spacing_options spacing_ratings spacing_option = Inr (spacing_ratings ! i3)"
    by blast
  from rating_selected [OF assms(4) table_lengths(4)] obtain i4 where
    i4: "i4 < length condition_options" "condition_options ! i4 = condition_option"
      "rating condition_options condition_ratings condition_option = Inr (condition_ratings ! i4)"
    by blast
  from rating_selected [OF assms(5) table_lengths(5)] obtain i5 where
    i5: "i5 < length water_options" "water_options ! i5 = water_option"
      "rating water_options water_ratings water_option = Inr (water_ratings ! i5)"
    by blast
  define total where
    "total = ucs_ratings ! i1 + rqd_ratings ! i2 + spacing_ratings ! i3
       + condition_ratings ! i4 + water_ratings ! i5"
  obtain cls descr colour where cl: "classify total = (cls, descr, colour)"
    by (cases "classify total") auto
  define r where
    "r = \<lparr>a1_rating = ucs_ratings ! i1, a2_rating = rqd_ratings ! i2,
           a3_rating = spacing_ratings ! i3, a4_rating = condition_ratings ! i4,
           a5_rating = water_ratings ! i5, rmr_value = total, rock_class = cls,
           description = descr, class_color = colour\<rparr>"
  have sc: "score ucs_option rqd_option spacing_option condition_option water_option = Inr r"
    using cl by (simp add: score_def i1(3) i2(3) i3(3) i4(3) i5(3) r_def total_def)
  have "ucs_ratings ! i1 \<in> set ucs_ratings" "rqd_ratings ! i2 \<in> set rqd_ratings"
    "spacing_ratings ! i3 \<in> set spacing_ratings"
    "condition_ratings ! i4 \<in> set condition_ratings"
    "water_ratings ! i5 \<in> set water_ratings"
    using i1(1) i2(1) i3(1) i4(1) i5(1) by (simp_all add: table_lengths)
  then have bounds: "8 \<le> total" "total \<le> 100"
    using ucs_ratings_bounds rqd_ratings_bounds spacing_ratings_bounds
      condition_ratings_bounds water_ratings_bounds
    unfolding total_def by fastforce+
  have "rmr_value r = total"
    and "rmr_value r = a1_rating r + a2_rating r + a3_rating r + a4_rating r + a5_rating r"
    by (simp_all add: r_def total_def)
  with sc i1 i2 i3 i4 i5 bounds
  show "\<exists>r i1 i2 i3 i4 i5.
            score ucs_option rqd_option spacing_option condition_option water_option = Inr r
          \<and> i1 < length ucs_options \<and> ucs_options ! i1 = ucs_option
          \<and> i2 < length rqd_options \<and> rqd_options ! i2 = rqd_option
          \<and> i3 < length spacing_options \<and> spacing_options ! i3 = spacing_option
          \<and> i4 < length condition_options \<and> condition_options ! i4 = condition_option
          \<and> i5 < length water_options \<and> water_options ! i5 = water_option
          \<and> rmr_value r = ucs_ratings ! i1 + rqd_ratings ! i2 + spacing_ratings ! i3
                + condition_ratings ! i4 + water_ratings ! i5
          \<and> rmr_value r = a1_rating r + a2_rating r + a3_rating r + a4_rating r + a5_rating r
          \<and> 0 \<le> rmr_value r \<and> rmr_value r \<le> 100 \<and> 8 \<le> rmr_value r"
    unfolding total_def
    by (intro exI [of _ r] exI [of _ i1] exI [of _ i2] exI [of _ i3] exI [of _ i4] exI [of _ i5]) simp
next
  have "''< 1 MPa (0 points)'' \<in> set ucs_options" "''< 25% (3 points)'' \<in> set rqd_options"
    "''< 60 mm (5 points)'' \<in> set spacing_options"
    "''Soft gouge > 5 mm, or separation > 5 mm (0 points)'' \<in> set condition_options"
    "''Flowing (0 points)'' \<in> set water_options"
    by (simp_all add: ucs_options_def rqd_options_def spacing_options_def
        condition_options_def water_options_def)
  then show "\<exists>u \<in> set ucs_options. \<exists>q \<in> set rqd_options. \<exists>s \<in> set spacing_options.
            \<exists>c \<in> set condition_options. \<exists>w \<in> set water_options.
            \<exists>r. score u q s c w = Inr r \<and> rmr_value r = 8"
    using score_minimum by (metis rmr_result.select_convs(6))
qed

theorem rmr_value_sum_in_range_witness:
  "''50-100 MPa (7 points)'' \<in> set ucs_options
   \<and> ''50-75% (13 points)'' \<in> set rqd_options
   \<and> ''200-600 mm (10 points)'' \<in> set spacing_options
   \<and> ''Slightly rough, separation < 1 mm, highly weathered (20 points)'' \<in> set condition_options
   \<and> ''Damp (10 points)'' \<in> set water_options
   \<and> (\<exists>r. score ''50-100 MPa (7 points)'' ''50-75% (13 points)'' ''200-600 mm (10 points)''
              ''Slightly rough, separation < 1 mm, highly weathered (20 points)''
              ''Damp (10 points)'' = Inr r
          \<and> rmr_value r = 7 + 13 + 10 + 20 + 10 \<and> 0 \<le> rmr_value r \<and> rmr_value r \<le> 100)"
proof -
  have m: "''50-100 MPa (7 points)'' \<in> set ucs_options"
    "''50-75% (13 points)'' \<in> set rqd_options"
    "''200-600 mm (10 points)'' \<in> set spacing_options"
    "''Slightly rough, separation < 1 mm, highly weathered (20 points)'' \<in> set condition_options"
    "''Damp (10 points)'' \<in> set water_options"
    by (simp_all add: ucs_options_def rqd_options_def spacing_options_def
        condition_options_def water_options_def)
  from rmr_value_sum_in_range [OF m] obtain r where
    r: "score ''50-100 MPa (7 points)'' ''50-75% (13 points)'' ''200-600 mm (10 points)''
          ''Slightly rough, separation < 1 mm, highly weathered (20 points)''
          ''Damp (10 points)'' = Inr r"
      "0 \<le> rmr_value r" "rmr_value r \<le> 100"
    by blast
  have "score ''50-100 MPa (7 points)'' ''50-75% (13 points)'' ''200-600 mm (10 points)''
          ''Slightly rough, separation < 1 mm, highly weathered (20 points)''
          ''Damp (10 points)''
        = Inr \<lparr>a1_rating = 7, a2_rating = 13, a3_rating = 10, a4_rating = 20, a5_rating = 10,
                rmr_value = 60, rock_class = III, description = ''Fair rock'',
                class_color = ''yellow''\<rparr>"
    by (simp add: score_def rating_def getitem_def classify_def
        ucs_ratings_def ucs_options_def rqd_ratings_def rqd_options_def
        spacing_ratings_def spacing_options_def condition_ratings_def condition_options_def
        water_ratings_def water_options_def)
  with r(1) have "rmr_value r = 7 + 13 + 10 + 20 + 10"
    by auto
  with m r show ?thesis
    by blast
qed

text \<open>
  Claim C2. The classifier is a function of the integer score, so every score has
  exactly one class: 81 to 100 is class I (Very good rock), 61 to 80 class II (Good
  rock), 41 to 60 class III (Fair rock), 21 to 40 class IV (Poor rock), and every score
  below 21, negative ones included, class V (Very poor rock). On the scores from 0 to
  100 each class is assigned on its closed range and nowhere else, so the boundary
  scores 81, 61, 41 and 21 belong to the higher class. The final \<^verbatim>\<open>else\<close> also
  takes the scores above 100, which no five table values add up to.
\<close>

theorem classify_partition:
  "(81 \<le> s \<and> s \<le> 100 \<longrightarrow> classify s = (I, ''Very good rock'', ''green''))
   \<and> (61 \<le> s \<and> s \<le> 80 \<longrightarrow> classify s = (II, ''Good rock'', ''lightgreen''))
   \<and> (41 \<le> s \<and> s \<le> 60 \<longrightarrow> classify s = (III, ''Fair rock'', ''yellow''))
   \<and> (21 \<le> s \<and> s \<le> 40 \<longrightarrow> classify s = (IV, ''Poor rock'', ''orange''))
   \<and> (s < 21 \<longrightarrow> classify s = (V, ''Very poor rock'', ''red''))
   \<and> (100 < s \<longrightarrow> classify s = (V, ''Very poor rock'', ''red''))
   \<and> (0 \<le> s \<and> s \<le> 100 \<longrightarrow>
        (fst (classify s) = I \<longleftrightarrow> 81 \<le> s \<and> s \<le> 100)
      \<and> (fst (classify s) = II \<longleftrightarrow> 61 \<le> s \<and> s \<le> 80)
      \<and> (fst (classify s) = III \<longleftrightarrow> 41 \<le> s \<and> s \<le> 60)
      \<and> (fst (classify s) = IV \<longleftrightarrow> 21 \<le> s \<and> s \<le> 40)
      \<and> (fst (classify s) = V \<longleftrightarrow> 0 \<le> s \<and> s \<le> 20))"
  unfolding classify_def by auto

theorem classify_partition_witness:
  "classify 100 = (I, ''Very good rock'', ''green'')
   \<and> classify 81 = (I, ''Very good rock'', ''green'')
   \<and> classify 80 = (II, ''Good rock'', ''lightgreen'')
   \<and> classify 61 = (II, ''Good rock'', ''lightgreen'')
   \<and> classify 60 = (III, ''Fair rock'', ''yellow'')
   \<and> classify 41 = (III, ''Fair rock'', ''yellow'')
   \<and> classify 40 = (IV, ''Poor rock'', ''orange'')
   \<and> classify 21 = (IV, ''Poor rock'', ''orange'')
   \<and> classify 20 = (V, ''Very poor rock'', ''red'')
   \<and> classify 0 = (V, ''Very poor rock'', ''red'')
   \<and> classify (- 7) = (V, ''Very poor rock'', ''red'')
   \<and> classify 101 = (V, ''Very poor rock'', ''red'')
   \<and> (fst (classify 61) = II \<longleftrightarrow> (61::int) \<le> 61 \<and> (61::int) \<le> 80)"
  using classify_partition [of 100] classify_partition [of 81] classify_partition [of 80]
    classify_partition [of 61] classify_partition [of 60] classify_partition [of 41]
    classify_partition [of 40] classify_partition [of 21] classify_partition [of 20]
    classify_partition [of 0] classify_partition [of "- 7"] classify_partition [of 101]
  by simp

section \<open>Properties of the support planner\<close>

lemma bolt_rows_Inr:
  "spacing \<noteq> 0 \<Longrightarrow>
   bolt_rows rc width spacing =
     Inr (if rc = I then (max 2 (py_round (float_quotient width spacing)), 0.5)
          else (max 3 (py_round (float_quotient width spacing)), 1 / spacing))"
  by (simp add: bolt_rows_def float_div_Inr fdiv_def)

lemma support_recommendation_spacing_pos: "0 < fst (snd (support_recommendation rc width))"
  by (cases rc) simp_all

lemma plan_Inr:
  "\<exists>p. plan rc width len = Inr p
     \<and> bolt_length p = fst (support_recommendation rc width)
     \<and> bolt_spacing p = fst (snd (support_recommendation rc width))
     \<and> bolts_per_row p =
         max (if rc = I then 2 else 3) (py_round (float_quotient width (bolt_spacing p)))
     \<and> rows_per_meter p = (if rc = I then 0.5 else 1 / bolt_spacing p)
     \<and> bolt_density p = of_int (bolts_per_row p) * rows_per_meter p
     \<and> total_bolts p = bolt_density p * len
     \<and> total_bolt_length p = total_bolts p * bolt_length p"
proof -
  obtain bl sp pat ty cap ad where
    sr: "support_recommendation rc width = (bl, sp, pat, ty, cap, ad)"
    by (cases "support_recommendation rc width") auto
  have "0 < sp"
    using support_recommendation_spacing_pos [of rc width] by (simp add: sr)
  then have "sp \<noteq> 0"
    by simp
  then show ?thesis
    by (simp add: plan_def sr bolt_rows_Inr Let_def)
qed

lemma plan_InrD:
  "plan rc width len = Inr p \<Longrightarrow>
   bolt_length p = fst (support_recommendation rc width)
   \<and> bolt_spacing p = fst (snd (support_recommendation rc width))"
  using plan_Inr [of rc width len] by auto

lemma float_quotient_examples:
  "float_quotient 5.4 1.2 = 5066549580791809 / 1125899906842624"
  "float_quotient 2.7 0.6 = 5066549580791809 / 1125899906842624"
  "float_quotient 5.0 2.0 = 5 / 2"
  "float_quotient 4.5 1.0 = 9 / 2"
  by code_simp+

lemma py_round_examples:
  "py_round (5066549580791809 / 1125899906842624) = 5"
  "py_round (5 / 2) = 2"
  "py_round (9 / 2) = 4"
  by (simp_all add: py_round_def Let_def)

text \<open>
  Claim C3. For every class, excavation width and tunnel length the planner returns a
  plan whose bolt length and bolt spacing are those of the table: class I
  \<open>max(2.0, width/5)\<close> and 2.0; class II \<open>max(2.5, width/4)\<close> and 1.5; class III
  \<open>max(3.0, width/3)\<close> and 1.2; class IV \<open>max(4.0, width/2.5)\<close> and 1.0; class V
  \<open>max(4.5, width/2)\<close> and 0.6.
\<close>

theorem plan_length_and_spacing:
  "(\<exists>p. plan I width len = Inr p
        \<and> bolt_length p = max 2.0 (width / 5) \<and> bolt_spacing p = 2.0)
   \<and> (\<exists>p. plan II width len = Inr p
        \<and> bolt_length p = max 2.5 (width / 4) \<and> bolt_spacing p = 1.5)
   \<and> (\<exists>p. plan III width len = Inr p
        \<and> bolt_length p = max 3.0 (width / 3) \<and> bolt_spacing p = 1.2)
   \<and> (\<exists>p. plan IV width len = Inr p
        \<and> bolt_length p = max 4.0 (width / 2.5) \<and> bolt_spacing p = 1.0)
   \<and> (\<exists>p. plan V width len = Inr p
        \<and> bolt_length p = max 4.5 (width / 2) \<and> bolt_spacing p = 0.6)"
proof -
  have c: "\<exists>p. plan rc width len = Inr p
      \<and> bolt_length p = fst (support_recommendation rc width)
      \<and> bolt_spacing p = fst (snd (support_recommendation rc width))" for rc
    using plan_Inr [of rc width len] by blast
  show ?thesis
    using c [of I] c [of II] c [of III] c [of IV] c [of V] by simp
qed

theorem plan_length_and_spacing_witness:
  "(\<exists>p. plan III 5.0 100 = Inr p \<and> bolt_length p = 3.0 \<and> bolt_spacing p = 1.2)
   \<and> (\<exists>p. plan V 12 100 = Inr p \<and> bolt_length p = 6 \<and> bolt_spacing p = 0.6)"
  using plan_length_and_spacing [of "5.0" 100] plan_length_and_spacing [of 12 100]
  by simp

text \<open>
  Claim C4. For every class, excavation width and tunnel length the planner returns a
  plan in which the bolts per row are \<open>max(2, round(width/spacing))\<close> for class I and
  \<open>max(3, round(width/spacing))\<close> otherwise, where \<open>width/spacing\<close> is the quotient
  binary64 division returns and \<open>round\<close> gives the integer nearest to it, the even one
  of two at equal distance (no more than one half away, and even when exactly one half
  away). The rows per metre are 0.5 for class I and \<open>1/spacing\<close> otherwise, the bolt
  density is the product of the two, the total number of bolts is the density times the
  tunnel length, and the total bolt length is the total number of bolts times the bolt
  length. The spacing divided by is not zero.
\<close>

theorem plan_derived_quantities:
  "\<exists>p r. plan rc width len = Inr p
     \<and> bolt_spacing p \<noteq> 0
     \<and> r = py_round (float_quotient width (bolt_spacing p))
     \<and> \<bar>of_int r - float_quotient width (bolt_spacing p)\<bar> \<le> 1 / 2
     \<and> (\<bar>of_int r - float_quotient width (bolt_spacing p)\<bar> = 1 / 2 \<longrightarrow> even r)
     \<and> bolts_per_row p = (if rc = I then max 2 r else max 3 r)
     \<and> rows_per_meter p = (if rc = I then 0.5 else 1 / bolt_spacing p)
     \<and> bolt_density p = of_int (bolts_per_row p) * rows_per_meter p
     \<and> total_bolts p = bolt_density p * len
     \<and> total_bolt_length p = total_bolts p * bolt_length p"
proof -
  from plan_Inr [of rc width len] obtain p where
    p: "plan rc width len = Inr p"
      "bolt_spacing p = fst (snd (support_recommendation rc width))"
      "bolts_per_row p =
         max (if rc = I then 2 else 3) (py_round (float_quotient width (bolt_spacing p)))"
      "rows_per_meter p = (if rc = I then 0.5 else 1 / bolt_spacing p)"
      "bolt_density p = of_int (bolts_per_row p) * rows_per_meter p"
      "total_bolts p = bolt_density p * len"
      "total_bolt_length p = total_bolts p * bolt_length p"
    by blast
  define r where "r = py_round (float_quotient width (bolt_spacing p))"
  have sp: "bolt_spacing p \<noteq> 0"
    using support_recommendation_spacing_pos [of rc width] by (simp add: p(2))
  have near: "\<bar>of_int r - float_quotient width (bolt_spacing p)\<bar> \<le> 1 / 2"
    "\<bar>of_int r - float_quotient width (bolt_spacing p)\<bar> = 1 / 2 \<longrightarrow> even r"
    unfolding r_def using py_round_nearest [of "float_quotient width (bolt_spacing p)"]
    by blast+
  have per_row: "bolts_per_row p = (if rc = I then max 2 r else max 3 r)"
    using p(3) by (simp add: r_def)
  from p(1) sp r_def near per_row p(4-7) show ?thesis
    by blast
qed

theorem plan_derived_quantities_witness:
  "(\<exists>p. plan III 5.4 100 = Inr p
      \<and> float_quotient 5.4 (bolt_spacing p) = 5066549580791809 / 1125899906842624
      \<and> bolts_per_row p = 5 \<and> rows_per_meter p = 5 / 6 \<and> bolt_density p = 25 / 6
      \<and> total_bolts p = 1250 / 3 \<and> total_bolt_length p = 1250)
   \<and> (\<exists>p. plan I 5.0 100 = Inr p
      \<and> float_quotient 5.0 (bolt_spacing p) = 5 / 2
      \<and> bolts_per_row p = 2 \<and> rows_per_meter p = 1 / 2 \<and> bolt_density p = 1
      \<and> total_bolts p = 100 \<and> total_bolt_length p = 200)"
proof
  from plan_derived_quantities [of III "5.4" 100] obtain p r where
    p: "plan III 5.4 100 = Inr p"
    and r: "r = py_round (float_quotient 5.4 (bolt_spacing p))"
    and q: "bolts_per_row p = (if III = I then max 2 r else max 3 r)"
      "rows_per_meter p = (if III = I then 0.5 else 1 / bolt_spacing p)"
      "bolt_density p = of_int (bolts_per_row p) * rows_per_meter p"
      "total_bolts p = bolt_density p * 100"
      "total_bolt_length p = total_bolts p * bolt_length p"
    by blast
  have sp: "bolt_spacing p = 1.2" and bl: "bolt_length p = 3"
    using plan_InrD [OF p] by simp_all
  have fq: "float_quotient 5.4 (bolt_spacing p) = 5066549580791809 / 1125899906842624"
    unfolding sp by (rule float_quotient_examples)
  have "r = 5"
    unfolding r fq by (rule py_round_examples)
  then have per_row: "bolts_per_row p = 5"
    using q(1) by simp
  have rest: "rows_per_meter p = 5 / 6 \<and> bolt_density p = 25 / 6
     \<and> total_bolts p = 1250 / 3 \<and> total_bolt_length p = 1250"
    unfolding q(2-5) per_row sp bl by simp
  from p fq per_row rest
  show "\<exists>p. plan III 5.4 100 = Inr p
      \<and> float_quotient 5.4 (bolt_spacing p) = 5066549580791809 / 1125899906842624
      \<and> bolts_per_row p = 5 \<and> rows_per_meter p = 5 / 6 \<and> bolt_density p = 25 / 6
      \<and> total_bolts p = 1250 / 3 \<and> total_bolt_length p = 1250"
    by blast
next
  from plan_derived_quantities [of I "5.0" 100] obtain p r where
    p: "plan I 5.0 100 = Inr p"
    and r: "r = py_round (float_quotient 5.0 (bolt_spacing p))"
    and q: "bolts_per_row p = (if I = I then max 2 r else max 3 r)"
      "rows_per_meter p = (if I = I then 0.5 else 1 / bolt_spacing p)"
      "bolt_density p = of_int (bolts_per_row p) * rows_per_meter p"
      "total_bolts p = bolt_density p * 100"
      "total_bolt_length p = total_bolts p * bolt_length p"
    by blast
  have sp: "bolt_spacing p = 2.0" and bl: "bolt_length p = 2"
    using plan_InrD [OF p] by simp_all
  have fq: "float_quotient 5.0 (bolt_spacing p) = 5 / 2"
    unfolding sp by (rule float_quotient_examples)
  have "r = 2"
    unfolding r fq by (rule py_round_examples)
  then have per_row: "bolts_per_row p = 2"
    using q(1) by simp
  have rest: "rows_per_meter p = 1 / 2 \<and> bolt_density p = 1
     \<and> total_bolts p = 100 \<and> total_bolt_length p = 200"
    unfolding q(2-5) per_row bl by simp
  from p fq per_row rest
  show "\<exists>p. plan I 5.0 100 = Inr p
      \<and> float_quotient 5.0 (bolt_spacing p) = 5 / 2
      \<and> bolts_per_row p = 2 \<and> rows_per_meter p = 1 / 2 \<and> bolt_density p = 1
      \<and> total_bolts p = 100 \<and> total_bolt_length p = 200"
    by blast
qed

text \<open>
  Claim C10. The rounding in the bolts per row is to the nearest integer with a tie
  resolved towards the even neighbour: whenever the quotient \<open>width/spacing\<close> that
  binary64 division returns is an integer \<open>k\<close> plus one half, the rounded value is
  \<open>k\<close> when \<open>k\<close> is even and \<open>k + 1\<close> when it is odd. For class I and width 5.0
  (spacing 2.0) the quotient is exactly 2.5, it rounds to 2, and the plan has 2 bolts
  per row, where rounding a half up would give 3.
\<close>

theorem bolts_per_row_half_to_even:
  "(\<exists>p. plan rc width len = Inr p
        \<and> (\<forall>k. float_quotient width (bolt_spacing p) = of_int k + 1 / 2 \<longrightarrow>
               bolts_per_row p = max (if rc = I then 2 else 3) (if even k then k else k + 1)))
   \<and> (\<exists>p. plan I 5.0 len = Inr p \<and> bolt_spacing p = 2.0
        \<and> float_quotient 5.0 (bolt_spacing p) = of_int 2 + 1 / 2
        \<and> bolts_per_row p = 2 \<and> max 2 \<lfloor>5.0 / 2.0 + 1 / 2 :: real\<rfloor> = 3)"
proof
  from plan_Inr [of rc width len] obtain p where
    p: "plan rc width len = Inr p"
      "bolts_per_row p =
         max (if rc = I then 2 else 3) (py_round (float_quotient width (bolt_spacing p)))"
    by blast
  have "py_round (of_int k + 1 / 2) = (if even k then k else k + 1)" for k
    by (simp add: py_round_def Let_def)
  with p show "\<exists>p. plan rc width len = Inr p
        \<and> (\<forall>k. float_quotient width (bolt_spacing p) = of_int k + 1 / 2 \<longrightarrow>
               bolts_per_row p = max (if rc = I then 2 else 3) (if even k then k else k + 1))"
    by (intro exI [of _ p]) simp
next
  from plan_Inr [of I "5.0" len] obtain p where
    p: "plan I 5.0 len = Inr p"
      "bolts_per_row p =
         max (if I = I then 2 else 3) (py_round (float_quotient 5.0 (bolt_spacing p)))"
    by blast
  have sp: "bolt_spacing p = 2.0"
    using plan_InrD [OF p(1)] by simp
  have fq: "float_quotient 5.0 (bolt_spacing p) = 5 / 2"
    unfolding sp by (rule float_quotient_examples)
  have per_row: "bolts_per_row p = 2"
    unfolding p(2) fq by (simp add: py_round_examples)
  have tie: "float_quotient 5.0 (bolt_spacing p) = of_int 2 + 1 / 2"
    unfolding fq by simp
  have "max 2 \<lfloor>5.0 / 2.0 + 1 / 2 :: real\<rfloor> = 3"
    by simp
  with p(1) sp tie per_row
  show "\<exists>p. plan I 5.0 len = Inr p \<and> bolt_spacing p = 2.0
        \<and> float_quotient 5.0 (bolt_spacing p) = of_int 2 + 1 / 2
        \<and> bolts_per_row p = 2 \<and> max 2 \<lfloor>5.0 / 2.0 + 1 / 2 :: real\<rfloor> = 3"
    by blast
qed

theorem bolts_per_row_half_to_even_witness:
  "\<exists>p. plan IV 4.5 100 = Inr p \<and> bolt_spacing p = 1.0
     \<and> float_quotient 4.5 (bolt_spacing p) = of_int 4 + 1 / 2 \<and> even (4::int)
     \<and> bolts_per_row p = 4 \<and> max 3 \<lfloor>4.5 / 1.0 + 1 / 2 :: real\<rfloor> = 5"
proof -
  from bolts_per_row_half_to_even [of IV "4.5" 100] obtain p where
    p: "plan IV 4.5 100 = Inr p"
    and k: "\<forall>k. float_quotient 4.5 (bolt_spacing p) = of_int k + 1 / 2 \<longrightarrow>
          bolts_per_row p = max (if IV = I then 2 else 3) (if even k then k else k + 1)"
    by blast
  have sp: "bolt_spacing p = 1.0"
    using plan_InrD [OF p] by simp
  have fq: "float_quotient 4.5 (bolt_spacing p) = 9 / 2"
    unfolding sp by (rule float_quotient_examples)
  have h: "float_quotient 4.5 (bolt_spacing p) = of_int 4 + 1 / 2"
    unfolding fq by simp
  from k h have "bolts_per_row p = max (if IV = I then 2 else 3) (if even (4::int) then 4 else 4 + 1)"
    by blast
  then have per_row: "bolts_per_row p = 4"
    by simp
  have "even (4::int)" "max 3 \<lfloor>4.5 / 1.0 + 1 / 2 :: real\<rfloor> = 5"
    by simp_all
  with p sp h per_row show ?thesis
    by blast
qed

section \<open>Properties of the bolt layout generator\<close>

lemma cols_loop_Inr:
  assumes "cols \<noteq> 0" and "((rc = II \<or> rc = III) \<and> row > 1) \<or> rows \<noteq> 0"
  shows "cols_loop rc width height rows cols row cs acc =
    Inr (acc @ concat (map (\<lambda>col.
           if (rc = II \<or> rc = III) \<and> row > 1 then []
           else [cell_position width height rows cols row col]) cs))"
  using assms by (induction cs arbitrary: acc) (auto simp: fdiv_def cell_position_def Let_def)

lemma rows_loop_Inr:
  assumes "cols \<noteq> 0" and "rows \<noteq> 0"
  shows "rows_loop rc width height rows cols rs acc =
    Inr (acc @ concat (map (\<lambda>row. concat (map (\<lambda>col.
           if (rc = II \<or> rc = III) \<and> row > 1 then []
           else [cell_position width height rows cols row col]) (py_range cols))) rs))"
  using assms by (induction rs arbitrary: acc) (simp_all add: cols_loop_Inr)

lemma grid_rows_Inr:
  "spacing \<noteq> 0 \<Longrightarrow>
   grid_rows rc height spacing =
     Inr (if rc = IV \<or> rc = V then py_int (float_quotient height spacing)
          else max 2 (py_int (float_quotient height spacing)))"
  by (simp add: grid_rows_def float_div_Inr)

lemma grid_cols_Inr:
  "spacing \<noteq> 0 \<Longrightarrow>
   grid_cols width spacing = Inr (max 3 (py_int (float_quotient width spacing)))"
  by (simp add: grid_cols_def float_div_Inr)

lemma grid_rows_zero: "grid_rows rc height 0 = Inl ZeroDivisionError"
  by (simp add: grid_rows_def float_div_zero)

lemma grid_cols_ge: "grid_cols width spacing = Inr cols \<Longrightarrow> 3 \<le> cols"
  by (auto simp: grid_cols_def float_div_def split: if_splits)

lemma grid_rows_ge:
  "grid_rows rc height spacing = Inr rows \<Longrightarrow> rc \<noteq> IV \<Longrightarrow> rc \<noteq> V \<Longrightarrow> 2 \<le> rows"
  by (auto simp: grid_rows_def float_div_def split: if_splits)

lemma bolt_positions_grid:
  assumes "rc \<noteq> I" and "grid_rows rc height spacing = Inr rows"
    and "grid_cols width spacing = Inr cols"
  shows "bolt_positions rc width height spacing =
    Inr (concat (map (\<lambda>row. concat (map (\<lambda>col.
           if (rc = II \<or> rc = III) \<and> row > 1 then []
           else [cell_position width height rows cols row col]) [0..cols - 1])) [0..rows - 1]))"
proof (cases "rows = 0")
  case True
  with assms show ?thesis
    by (simp add: bolt_positions_def py_range_def)
next
  case False
  moreover have "cols \<noteq> 0"
    using grid_cols_ge [OF assms(3)] by simp
  ultimately show ?thesis
    using assms by (simp add: bolt_positions_def rows_loop_Inr py_range_def)
qed

lemma py_int_floor: "0 \<le> x \<Longrightarrow> py_int x = \<lfloor>x\<rfloor>"
  by (simp add: py_int_def)

lemma py_int_neg: "x < 0 \<Longrightarrow> py_int x \<le> 0 \<and> \<lfloor>x\<rfloor> < 0"
  by (simp add: py_int_def ceiling_le_iff)

lemma max_py_int_floor:
  assumes "0 < n"
  shows "max n (py_int x) = max n \<lfloor>x\<rfloor>"
proof (cases "0 \<le> x")
  case True
  then show ?thesis
    by (simp add: py_int_floor)
next
  case False
  then have "x < 0"
    by simp
  from py_int_neg [OF this] assms have "max n (py_int x) = n" "max n \<lfloor>x\<rfloor> = n"
    by linarith+
  then show ?thesis
    by simp
qed

lemma spec_position_eq: "spec_position = cell_position"
  by (simp add: fun_eq_iff spec_position_def cell_position_def)

lemma grid_cols_spec: "spacing \<noteq> 0 \<Longrightarrow> grid_cols width spacing = Inr (spec_cols width spacing)"
  by (simp add: grid_cols_Inr spec_cols_def max_py_int_floor)

lemma grid_rows_spec:
  "spacing \<noteq> 0 \<Longrightarrow> 0 \<le> float_quotient height spacing \<or> rc = II \<or> rc = III \<Longrightarrow>
   grid_rows rc height spacing = Inr (spec_rows rc height spacing)"
  by (auto simp: grid_rows_Inr spec_rows_def max_py_int_floor py_int_floor)

lemma bolt_positions_class_I:
  "bolt_positions I width height spacing =
     Inr [(width / 4, 0.5), (width / 2, 0.5), (3 * width / 4, 0.5)]"
  by (simp add: bolt_positions_def)

lemma crown_rows:
  assumes "rc = II \<or> rc = III" and "grid_rows rc height spacing = Inr rows"
    and "grid_cols width spacing = Inr cols"
  shows "bolt_positions rc width height spacing =
    Inr (map (\<lambda>col. cell_position width height rows cols 0 col) [0..cols - 1]
       @ map (\<lambda>col. cell_position width height rows cols 1 col) [0..cols - 1])"
proof -
  have "2 \<le> rows"
    using grid_rows_ge [OF assms(2)] assms(1) by auto
  then have split: "[0..rows - 1] = 0 # 1 # [2..rows - 1]"
    by (simp add: upto_rec1)
  have "rc \<noteq> I"
    using assms(1) by auto
  from bolt_positions_grid [OF this assms(2,3)] show ?thesis
    using assms(1) unfolding split by auto
qed

lemma cell_within:
  fixes a :: real and c n :: int
  assumes "0 \<le> a" and "0 \<le> c" and "c < n"
  shows "0 \<le> (of_int c + 0.5) * (a / of_int n) \<and> (of_int c + 0.5) * (a / of_int n) \<le> a"
proof -
  have n: "0 < (of_int n :: real)"
    using assms(2,3) by simp
  have "c + 1 \<le> n"
    using assms(3) by simp
  then have "(of_int (c + 1) :: real) \<le> of_int n"
    by (simp only: of_int_le_iff)
  then have le: "(of_int c + 0.5 :: real) \<le> of_int n"
    by simp
  have ge: "0 \<le> (of_int c + 0.5 :: real)"
    using assms(2) by simp
  have "0 \<le> a / of_int n"
    using assms(1) n by simp
  with ge have lower: "0 \<le> (of_int c + 0.5) * (a / of_int n)"
    by (rule mult_nonneg_nonneg)
  have "(of_int c + 0.5) * (a / of_int n) \<le> of_int n * (a / of_int n)"
    using le \<open>0 \<le> a / of_int n\<close> by (rule mult_right_mono)
  also have "\<dots> = a"
    using n by simp
  finally show ?thesis
    using lower by simp
qed

lemma positions_within:
  assumes "0 \<le> width" and "1 / 2 \<le> height"
    and "bolt_positions rc width height spacing = Inr ps"
    and "(x, y) \<in> set ps"
  shows "0 \<le> x \<and> x \<le> width \<and> 0 \<le> y \<and> y \<le> height"
proof (cases "rc = I")
  case True
  with assms show ?thesis
    by (auto simp: bolt_positions_class_I)
next
  case False
  from assms(3) False obtain rows cols where
    rows: "grid_rows rc height spacing = Inr rows" and cols: "grid_cols width spacing = Inr cols"
    by (auto simp: bolt_positions_def split: sum.splits)
  from bolt_positions_grid [OF False rows cols] assms(3,4)
  obtain row col where rc: "0 \<le> row" "row < rows" "0 \<le> col" "col < cols"
    "(x, y) = cell_position width height rows cols row col"
    by (auto split: if_splits)
  have "0 \<le> height"
    using assms(2) by simp
  with cell_within [OF assms(1) rc(3,4)] cell_within [OF _ rc(1,2), of height] rc(5)
  show ?thesis
    by (simp add: cell_position_def)
qed

lemma bolt_positions_Inr:
  "rc = I \<or> spacing \<noteq> 0 \<Longrightarrow> \<exists>ps. bolt_positions rc width height spacing = Inr ps"
  using bolt_positions_class_I [of width height spacing]
    bolt_positions_grid [of rc height spacing _ width, OF _ grid_rows_Inr grid_cols_Inr]
  by (cases "rc = I") auto

lemma bolt_pattern_positions_eq:
  "plan rc width len = Inr p \<Longrightarrow>
   bolt_pattern_positions rc width height len = bolt_positions rc width height (bolt_spacing p)"
  by (simp add: bolt_pattern_positions_def)

lemma plan_spacing_pos: "plan rc width len = Inr p \<Longrightarrow> 0 < bolt_spacing p"
  using plan_InrD [of rc width len p] support_recommendation_spacing_pos [of rc width] by simp

lemma grid_II_tall_example:
  "grid_rows II 12.0 1.5 = Inr 8"
  "grid_cols 6.0 1.5 = Inr 4"
  by code_simp+

lemma spec_grid_examples:
  "spec_grid_layout IV 5.0 3.3 1.1 =
     [(5 / 8, 33 / 40), (15 / 8, 33 / 40), (25 / 8, 33 / 40), (35 / 8, 33 / 40),
      (5 / 8, 99 / 40), (15 / 8, 99 / 40), (25 / 8, 99 / 40), (35 / 8, 99 / 40)]"
  "spec_rows IV 3.3 1.1 = 2"
  "spec_cols 5.0 1.1 = 4"
  "spec_cols 6.6 1.1 = 5"
  "spec_rows V 3.5999999999999996 0.6 = 6"
  "0 \<le> float_quotient 3.5999999999999996 0.6"
  by code_simp+

lemma layout_IV_example:
  "bolt_positions IV 5.0 3.5 1.0 =
     Inr [(1 / 2, 7 / 12), (3 / 2, 7 / 12), (5 / 2, 7 / 12), (7 / 2, 7 / 12), (9 / 2, 7 / 12),
          (1 / 2, 7 / 4), (3 / 2, 7 / 4), (5 / 2, 7 / 4), (7 / 2, 7 / 4), (9 / 2, 7 / 4),
          (1 / 2, 35 / 12), (3 / 2, 35 / 12), (5 / 2, 35 / 12), (7 / 2, 35 / 12),
          (9 / 2, 35 / 12)]"
  by code_simp

lemma pattern_IV_example:
  "bolt_pattern_positions IV 5.0 3.5 100 = bolt_positions IV 5.0 3.5 1.0"
  using plan_Inr [of IV "5.0" 100] by (auto simp: bolt_pattern_positions_def)

text \<open>
  Claim C5. For class I the layout is exactly the three positions \<open>(width/4, 0.5)\<close>,
  \<open>(width/2, 0.5)\<close>, \<open>(3*width/4, 0.5)\<close>, in this order, for every width, height
  and spacing; the spacing may even be zero, since this branch does not divide by it.
\<close>

theorem class_I_layout:
  "bolt_positions I width height spacing =
     Inr [(width / 4, 0.5), (width / 2, 0.5), (3 * width / 4, 0.5)]"
  by (simp add: bolt_positions_def)

theorem class_I_layout_witness:
  "bolt_positions I 5.0 3.5 2.0 = Inr [(1.25, 0.5), (2.5, 0.5), (3.75, 0.5)]
   \<and> bolt_positions I 5.0 30 0 = Inr [(1.25, 0.5), (2.5, 0.5), (3.75, 0.5)]"
  using class_I_layout [of "5.0" "3.5" "2.0"] class_I_layout [of "5.0" 30 0]
  by simp

text \<open>
  Claim C6. For classes II and III and every width and height: with a spacing of zero
  the generator raises \<^verbatim>\<open>ZeroDivisionError\<close> and yields no layout; with any other
  spacing it returns exactly the cells of rows 0 and 1 of the grid, so every position of
  the layout belongs to a row whose index is at most 1.
\<close>

theorem crown_classes_first_two_rows:
  assumes "rc = II \<or> rc = III"
  shows "(spacing = 0 \<and> bolt_positions rc width height spacing = Inl ZeroDivisionError)
    \<or> (spacing \<noteq> 0 \<and> (\<exists>rows cols ps.
          grid_rows rc height spacing = Inr rows \<and> grid_cols width spacing = Inr cols
        \<and> bolt_positions rc width height spacing = Inr ps
        \<and> ps = map (\<lambda>col. ((of_int col + 0.5) * (width / of_int cols),
                             (0 + 0.5) * (height / of_int rows))) [0..cols - 1]
             @ map (\<lambda>col. ((of_int col + 0.5) * (width / of_int cols),
                             (1 + 0.5) * (height / of_int rows))) [0..cols - 1]
        \<and> (\<forall>p \<in> set ps. \<exists>row col. 0 \<le> row \<and> row \<le> 1 \<and> 0 \<le> col \<and> col < cols
              \<and> p = ((of_int col + 0.5) * (width / of_int cols),
                      (of_int row + 0.5) * (height / of_int rows)))))"
proof (cases "spacing = 0")
  case True
  with assms show ?thesis
    by (auto simp: bolt_positions_def grid_rows_zero)
next
  case False
  define rows where "rows = max 2 (py_int (float_quotient height spacing))"
  define cols where "cols = max 3 (py_int (float_quotient width spacing))"
  have rows: "grid_rows rc height spacing = Inr rows"
    using assms False by (auto simp: grid_rows_Inr rows_def)
  have cols: "grid_cols width spacing = Inr cols"
    using False by (simp add: grid_cols_Inr cols_def)
  define ps where "ps = map (\<lambda>col. ((of_int col + 0.5) * (width / of_int cols),
                             (0 + 0.5) * (height / of_int rows))) [0..cols - 1]
             @ map (\<lambda>col. ((of_int col + 0.5) * (width / of_int cols),
                             (1 + 0.5) * (height / of_int rows))) [0..cols - 1]"
  have bp: "bolt_positions rc width height spacing = Inr ps"
    using crown_rows [OF assms rows cols] by (simp add: ps_def cell_position_def)
  have "\<exists>row col. 0 \<le> row \<and> row \<le> 1 \<and> 0 \<le> col \<and> col < cols
              \<and> p = ((of_int col + 0.5) * (width / of_int cols),
                      (of_int row + 0.5) * (height / of_int rows))" if "p \<in> set ps" for p
  proof -
    from that consider col where "0 \<le> col" "col < cols"
        "p = ((of_int col + 0.5) * (width / of_int cols), (0 + 0.5) * (height / of_int rows))"
      | col where "0 \<le> col" "col < cols"
        "p = ((of_int col + 0.5) * (width / of_int cols), (1 + 0.5) * (height / of_int rows))"
      by (auto simp: ps_def)
    then show ?thesis
    proof cases
      case 1
      then show ?thesis
        by (intro exI [of _ 0] exI [of _ col]) simp
    next
      case 2
      then show ?thesis
        by (intro exI [of _ 1] exI [of _ col]) simp
    qed
  qed
  with False rows cols bp ps_def show ?thesis
    by blast
qed

theorem crown_classes_first_two_rows_witness:
  "(II = II \<or> II = III) \<and> (1.5::real) \<noteq> 0
   \<and> grid_rows II 12.0 1.5 = Inr 8 \<and> grid_cols 6.0 1.5 = Inr 4
   \<and> (\<exists>ps. bolt_positions II 6.0 12.0 1.5 = Inr ps \<and> length ps = 8
        \<and> ps = [(3 / 4, 3 / 4), (9 / 4, 3 / 4), (15 / 4, 3 / 4), (21 / 4, 3 / 4),
                (3 / 4, 9 / 4), (9 / 4, 9 / 4), (15 / 4, 9 / 4), (21 / 4, 9 / 4)]
        \<and> list_all (\<lambda>p. \<exists>row col. 0 \<le> row \<and> row \<le> 1 \<and> 0 \<le> col \<and> col < (4::int)
              \<and> p = ((of_int col + 0.5) * (6.0 / of_int 4),
                      (of_int row + 0.5) * (12.0 / of_int 8))) ps)"
proof -
  have a: "II = II \<or> II = III" and b: "(1.5::real) \<noteq> 0"
    by simp_all
  note rows = grid_II_tall_example(1) and cols = grid_II_tall_example(2)
  from crown_classes_first_two_rows [OF a, of "1.5" "6.0" "12.0"] b
  obtain rows' cols' ps where
    g: "grid_rows II 12.0 1.5 = Inr rows'" "grid_cols 6.0 1.5 = Inr cols'"
    and ps: "bolt_positions II 6.0 12.0 1.5 = Inr ps"
      "ps = map (\<lambda>col. ((of_int col + 0.5) * (6.0 / of_int cols'),
                           (0 + 0.5) * (12.0 / of_int rows'))) [0..cols' - 1]
          @ map (\<lambda>col. ((of_int col + 0.5) * (6.0 / of_int cols'),
                           (1 + 0.5) * (12.0 / of_int rows'))) [0..cols' - 1]"
      "\<forall>p \<in> set ps. \<exists>row col. 0 \<le> row \<and> row \<le> 1 \<and> 0 \<le> col \<and> col < cols'
              \<and> p = ((of_int col + 0.5) * (6.0 / of_int cols'),
                      (of_int row + 0.5) * (12.0 / of_int rows'))"
    by blast
  have r: "rows' = 8" and c: "cols' = 4"
    using g unfolding rows cols by simp_all
  have upto: "[0..4 - 1] = [0, 1, 2, 3::int]"
    by code_simp
  have explicit: "ps = [(3 / 4, 3 / 4), (9 / 4, 3 / 4), (15 / 4, 3 / 4), (21 / 4, 3 / 4),
                (3 / 4, 9 / 4), (9 / 4, 9 / 4), (15 / 4, 9 / 4), (21 / 4, 9 / 4)]"
    unfolding ps(2) r c upto by simp
  then have len: "length ps = 8"
    by simp
  have "list_all (\<lambda>p. \<exists>row col. 0 \<le> row \<and> row \<le> 1 \<and> 0 \<le> col \<and> col < (4::int)
              \<and> p = ((of_int col + 0.5) * (6.0 / of_int 4),
                      (of_int row + 0.5) * (12.0 / of_int 8))) ps"
    using ps(3) unfolding r c list_all_iff .
  with a b rows cols ps(1) len explicit show ?thesis
    by blast
qed

text \<open>
  Claim C7. For classes II to V and a spacing other than zero, the generator returns the
  grid of the specification: \<open>rows = floor(height/spacing)\<close> for classes IV and V and
  \<open>max(2, floor(height/spacing))\<close> for classes II and III,
  \<open>cols = max(3, floor(width/spacing))\<close>, cell \<open>(row, col)\<close> at
  \<open>x = (col + 0.5) * width/cols\<close> and \<open>y = (row + 0.5) * height/rows\<close>, the cells
  in row-major order, without the rows after the second for classes II and III. The
  quotients that are floored are the ones binary64 division returns, which can lie
  below the exact quotient of the two decimals (\<open>3.3/1.1\<close> gives 2 rows). The code
  truncates towards zero where the specification takes the floor: the number of columns
  is the same, the number of rows is the same when the quotient is not negative or the
  class is II or III, and otherwise both layouts are empty.
\<close>

theorem grid_layout_matches_specification:
  assumes "rc \<noteq> I" and "spacing \<noteq> 0"
  shows "bolt_positions rc width height spacing = Inr (spec_grid_layout rc width height spacing)
    \<and> grid_cols width spacing = Inr (spec_cols width spacing)
    \<and> (0 \<le> float_quotient height spacing \<or> rc = II \<or> rc = III \<longrightarrow>
         grid_rows rc height spacing = Inr (spec_rows rc height spacing))"
proof -
  have cols: "grid_cols width spacing = Inr (spec_cols width spacing)"
    using assms(2) by (rule grid_cols_spec)
  have "bolt_positions rc width height spacing = Inr (spec_grid_layout rc width height spacing)"
  proof (cases "0 \<le> float_quotient height spacing \<or> rc = II \<or> rc = III")
    case True
    with assms(2) have "grid_rows rc height spacing = Inr (spec_rows rc height spacing)"
      by (rule grid_rows_spec)
    from bolt_positions_grid [OF assms(1) this cols] show ?thesis
      unfolding spec_grid_layout_def spec_position_eq Let_def .
  next
    case False
    with assms(1) have rc: "rc = IV \<or> rc = V" and neg: "float_quotient height spacing < 0"
      by (cases rc; simp)+
    have rows: "grid_rows rc height spacing = Inr (py_int (float_quotient height spacing))"
      using rc assms(2) by (auto simp: grid_rows_Inr)
    have "py_int (float_quotient height spacing) \<le> 0" "spec_rows rc height spacing < 0"
      using py_int_neg [OF neg] rc by (auto simp: spec_rows_def)
    then have "[0..py_int (float_quotient height spacing) - 1] = []"
      "[0..spec_rows rc height spacing - 1] = []"
      by simp_all
    with bolt_positions_grid [OF assms(1) rows cols] show ?thesis
      by (simp add: spec_grid_layout_def Let_def)
  qed
  with cols grid_rows_spec [OF assms(2)] show ?thesis
    by blast
qed

theorem grid_layout_matches_specification_witness:
  "IV \<noteq> I \<and> (1.1::real) \<noteq> 0
   \<and> bolt_positions IV 5.0 3.3 1.1 = Inr (spec_grid_layout IV 5.0 3.3 1.1)
   \<and> bolt_positions IV 5.0 3.3 1.1 =
       Inr [(5 / 8, 33 / 40), (15 / 8, 33 / 40), (25 / 8, 33 / 40), (35 / 8, 33 / 40),
            (5 / 8, 99 / 40), (15 / 8, 99 / 40), (25 / 8, 99 / 40), (35 / 8, 99 / 40)]
   \<and> grid_rows IV 3.3 1.1 = Inr 2 \<and> \<lfloor>3.3 / 1.1 :: real\<rfloor> = 3
   \<and> grid_cols 5.0 1.1 = Inr 4
   \<and> grid_cols 6.6 1.1 = Inr 5 \<and> \<lfloor>6.6 / 1.1 :: real\<rfloor> = 6
   \<and> grid_rows V 3.5999999999999996 0.6 = Inr 6
   \<and> \<lfloor>3.5999999999999996 / 0.6 :: real\<rfloor> = 5"
proof -
  have a: "IV \<noteq> I" and a': "V \<noteq> I" and b: "(1.1::real) \<noteq> 0" and b': "(0.6::real) \<noteq> 0"
    by simp_all
  note t = grid_layout_matches_specification [OF a b, of "5.0" "3.3"]
  note t' = grid_layout_matches_specification [OF a b, of "6.6" "3.3"]
  note t'' = grid_layout_matches_specification [OF a' b', of 1 "3.5999999999999996"]
  from t have e: "bolt_positions IV 5.0 3.3 1.1 = Inr (spec_grid_layout IV 5.0 3.3 1.1)"
    and c: "grid_cols 5.0 1.1 = Inr (spec_cols 5.0 1.1)"
    by blast+
  have "0 \<le> float_quotient 3.3 1.1"
    by code_simp
  with t have r: "grid_rows IV 3.3 1.1 = Inr (spec_rows IV 3.3 1.1)"
    by blast
  from t' have c': "grid_cols 6.6 1.1 = Inr (spec_cols 6.6 1.1)"
    by blast
  from t'' spec_grid_examples(6)
  have r': "grid_rows V 3.5999999999999996 0.6 = Inr (spec_rows V 3.5999999999999996 0.6)"
    by blast
  have f: "\<lfloor>3.3 / 1.1 :: real\<rfloor> = 3" "\<lfloor>6.6 / 1.1 :: real\<rfloor> = 6"
    "\<lfloor>3.5999999999999996 / 0.6 :: real\<rfloor> = 5"
    by simp_all
  show ?thesis
    using a b e f
    unfolding r r' c c' spec_grid_examples
    by blast
qed

text \<open>
  Claim C8. For every class and all positive width and height, with the spacing that
  the planner fixes for the class, neither the planner nor the layout generator divides
  by zero: both return a result, and the spacing is positive.
\<close>

theorem layout_no_division_by_zero:
  assumes "0 < width" and "0 < height"
  shows "\<exists>p ps. plan rc width len = Inr p \<and> 0 < bolt_spacing p
    \<and> bolt_positions rc width height (bolt_spacing p) = Inr ps
    \<and> bolt_pattern_positions rc width height len = Inr ps"
proof -
  from plan_Inr [of rc width len] obtain p where p: "plan rc width len = Inr p"
    by blast
  then have sp: "0 < bolt_spacing p"
    by (rule plan_spacing_pos)
  then obtain ps where "bolt_positions rc width height (bolt_spacing p) = Inr ps"
    using bolt_positions_Inr [of rc "bolt_spacing p" width height] by auto
  with p sp bolt_pattern_positions_eq [OF p, of height] show ?thesis
    by auto
qed

theorem layout_no_division_by_zero_witness:
  "(0::real) < 1 \<and> (0::real) < 0.5
   \<and> (\<exists>p. plan V 1 100 = Inr p \<and> 0 < bolt_spacing p
        \<and> bolt_positions V 1 0.5 (bolt_spacing p) = Inr []
        \<and> bolt_pattern_positions V 1 0.5 100 = Inr [])"
proof -
  have a: "(0::real) < 1" and b: "(0::real) < 0.5"
    by simp_all
  from layout_no_division_by_zero [OF a b, of V 100] obtain p ps where
    p: "plan V 1 100 = Inr p" "0 < bolt_spacing p"
      "bolt_positions V 1 0.5 (bolt_spacing p) = Inr ps"
      "bolt_pattern_positions V 1 0.5 100 = Inr ps"
    by blast
  have sp: "bolt_spacing p = 0.6"
    using plan_InrD [OF p(1)] by simp
  have "bolt_positions V 1 0.5 (bolt_spacing p) = Inr []"
    unfolding sp by code_simp
  with p(3) have "ps = []"
    by simp
  with p a b show ?thesis
    by blast
qed

text \<open>
  Claim C9. For every class and every width and height between 1 and 30, the layout
  generated for the planned spacing (and for any other spacing that is not zero) exists
  and each of its positions \<open>(x, y)\<close> has \<open>0 \<le> x \<le> width\<close> and
  \<open>0 \<le> y \<le> height\<close>.
\<close>

theorem positions_within_excavation:
  assumes "1 \<le> width" and "width \<le> 30" and "1 \<le> height" and "height \<le> 30"
  shows "(\<exists>ps. bolt_pattern_positions rc width height len = Inr ps
          \<and> (\<forall>(x, y) \<in> set ps. 0 \<le> x \<and> x \<le> width \<and> 0 \<le> y \<and> y \<le> height))
    \<and> (\<forall>spacing. spacing \<noteq> 0 \<longrightarrow>
          (\<exists>ps. bolt_positions rc width height spacing = Inr ps
            \<and> (\<forall>(x, y) \<in> set ps. 0 \<le> x \<and> x \<le> width \<and> 0 \<le> y \<and> y \<le> height)))"
proof -
  have w: "0 \<le> width" and h: "1 / 2 \<le> height"
    using assms by simp_all
  have generic: "\<exists>ps. bolt_positions rc width height spacing = Inr ps
      \<and> (\<forall>(x, y) \<in> set ps. 0 \<le> x \<and> x \<le> width \<and> 0 \<le> y \<and> y \<le> height)"
    if "spacing \<noteq> 0" for spacing
  proof -
    from that obtain ps where ps: "bolt_positions rc width height spacing = Inr ps"
      using bolt_positions_Inr [of rc spacing width height] by auto
    with positions_within [OF w h ps] show ?thesis
      by auto
  qed
  from plan_Inr [of rc width len] obtain p where p: "plan rc width len = Inr p"
    by blast
  then have "bolt_spacing p \<noteq> 0"
    using plan_spacing_pos [OF p] by simp
  from generic [OF this] bolt_pattern_positions_eq [OF p, of height] generic show ?thesis
    by auto
qed

theorem positions_within_excavation_witness:
  "(1::real) \<le> 5.0 \<and> (5.0::real) \<le> 30 \<and> (1::real) \<le> 3.5 \<and> (3.5::real) \<le> 30
   \<and> (\<exists>ps. bolt_pattern_positions IV 5.0 3.5 100 = Inr ps \<and> length ps = 15
        \<and> list_all (\<lambda>(x, y). 0 \<le> x \<and> x \<le> 5.0 \<and> 0 \<le> y \<and> y \<le> 3.5) ps)"
proof -
  have a: "(1::real) \<le> 5.0" "(5.0::real) \<le> 30" "(1::real) \<le> 3.5" "(3.5::real) \<le> 30"
    by simp_all
  from positions_within_excavation [OF a, of IV 100] obtain ps where
    ps: "bolt_pattern_positions IV 5.0 3.5 100 = Inr ps"
      "\<forall>(x, y) \<in> set ps. 0 \<le> x \<and> x \<le> 5.0 \<and> 0 \<le> y \<and> y \<le> 3.5"
    by blast
  from ps(1) pattern_IV_example layout_IV_example have "length ps = 15"
    by simp
  with ps a show ?thesis
    by (auto simp: list_all_iff)
qed

end
